theory Spec2Isabelle
  imports Complex_Main
begin

section \<open>The saturation-ratio kernel of fccld.py\<close>


section \<open>The driver run_fortran.py\<close>

subsection \<open>Exceptions and configuration objects\<close>

text \<open>
  The exceptions \<open>core\<close> can end with: the two \<open>raise RuntimeError(...)\<close> statements with
  their message, an index out of range, a token that \<open>float\<close> rejects, a stream that
  \<open>decode("utf-8")\<close> rejects, and whatever \<open>print_performance\<close> raises.
\<close>

datatype pyerror =
    RuntimeError string
  | IndexError
  | ValueError
  | UnicodeDecodeError
  | ZeroDivisionError

text \<open>The fields of \<open>FortranConfig\<close> and \<open>IOConfig\<close> that \<open>core\<close> reads.\<close>

record config =
  build_dir :: string
  precision :: string
  variant :: string
  nproma :: int
  num_cols :: int
  num_runs :: int
  num_threads :: int

record io_config =
  output_csv_file :: "string option"
  host_name :: "string option"

text \<open>
  What \<open>subprocess.run(..., capture_output=True)\<close> hands back. Each stream is given by its
  UTF-8 decoding; \<open>None\<close> stands for bytes on which \<open>decode("utf-8")\<close> raises.
\<close>

record completed =
  returncode :: int
  stdout :: "string option"
  stderr :: "string option"

subsection \<open>Builtins\<close>

text \<open>\<open>str(n)\<close> for an integer: decimal digits, a minus sign for negatives.\<close>

fun str_nat :: "nat \<Rightarrow> string" where
  "str_nat n = (if n < 10 then [char_of (48 + n)]
                else str_nat (n div 10) @ [char_of (48 + n mod 10)])"

declare str_nat.simps [simp del]

definition str_int :: "int \<Rightarrow> string" where
  "str_int i = (if i < 0 then CHR ''-'' # str_nat (nat (- i)) else str_nat (nat i))"

text \<open>\<open>s.split(c)\<close> for a one-character separator: always at least one piece.\<close>

fun split_char :: "char \<Rightarrow> string \<Rightarrow> string list" where
  "split_char c [] = [] # []"
| "split_char c (x # xs) =
     (if x = c then [] # split_char c xs
      else (case split_char c xs of
              [] \<Rightarrow> [x] # []
            | p # ps \<Rightarrow> (x # p) # ps))"

text \<open>\<open>xs[i]\<close>: a negative index counts from the end, anything out of range raises.\<close>

definition py_index :: "'a list \<Rightarrow> int \<Rightarrow> pyerror + 'a" where
  "py_index xs i =
     (if 0 \<le> i \<and> i < int (length xs) then Inr (xs ! nat i)
      else if i < 0 \<and> - i \<le> int (length xs) then Inr (xs ! nat (int (length xs) + i))
      else Inl IndexError)"

text \<open>\<open>os.path.join\<close> on a POSIX host, two components at a time.\<close>

definition path_join :: "string \<Rightarrow> string \<Rightarrow> string" where
  "path_join a b =
     (if b \<noteq> [] \<and> hd b = CHR ''/'' then b
      else if a = [] \<or> last a = CHR ''/'' then a @ b
      else a @ ''/'' @ b)"

subsection \<open>Reading one sample\<close>

text \<open>
  The builtin \<open>float\<close> is a parameter \<open>flt\<close>: \<open>None\<close> when it raises \<open>ValueError\<close>.
  \<open>tokens\<close> is \<open>[c for c in x.split(" ") if c != ""]\<close>.
\<close>

definition tokens :: "string \<Rightarrow> string list" where
  "tokens x = filter (\<lambda>c. c \<noteq> []) (split_char CHR '' '' x)"

definition py_float :: "(string \<Rightarrow> 'f option) \<Rightarrow> string \<Rightarrow> pyerror + 'f" where
  "py_float flt s = (case flt s of None \<Rightarrow> Inl ValueError | Some v \<Rightarrow> Inr v)"

definition decode :: "string option \<Rightarrow> pyerror + string" where
  "decode b = (case b of None \<Rightarrow> Inl UnicodeDecodeError | Some s \<Rightarrow> Inr s)"

text \<open>
  The common shape of the three branches: decode a stream, take a line, split it, convert
  the token at \<open>i\<close> (appended to \<open>runtime_l\<close>) and then the token at \<open>j\<close>.
\<close>

definition read_sample ::
  "(string \<Rightarrow> 'f option) \<Rightarrow> string option \<Rightarrow> int \<Rightarrow> int \<Rightarrow> int \<Rightarrow> pyerror + ('f \<times> 'f)" where
  "read_sample flt stream line i j =
     (case decode stream of
        Inl e \<Rightarrow> Inl e
      | Inr s \<Rightarrow>
          (case py_index (split_char CHR 0x0A s) line of
             Inl e \<Rightarrow> Inl e
           | Inr x \<Rightarrow>
               (case py_index (tokens x) i of
                  Inl e \<Rightarrow> Inl e
                | Inr a \<Rightarrow>
                    (case py_float flt a of
                       Inl e \<Rightarrow> Inl e
                     | Inr r \<Rightarrow>
                         (case py_index (tokens x) j of
                            Inl e \<Rightarrow> Inl e
                          | Inr b \<Rightarrow>
                              (case py_float flt b of
                                 Inl e \<Rightarrow> Inl e
                               | Inr m \<Rightarrow> Inr (r, m)))))))"

definition cuda_family :: "string list" where
  "cuda_family = [''cuda'', ''cuda-hoist'', ''cuda-k-caching'']"

definition scc_family :: "string list" where
  "scc_family =
     [''gpu-omp-scc-hoist'', ''gpu-scc'', ''gpu-scc-cuf'', ''gpu-scc-cuf-k-caching'',
      ''gpu-scc-hoist'', ''gpu-scc-k-caching'', ''loki-scc-cuf-hoist'', ''loki-scc-hoist'']"

text \<open>The \<open>if / elif / else\<close> of the loop body, lines 64 to 90.\<close>

definition parse_sample ::
  "(string \<Rightarrow> 'f option) \<Rightarrow> string \<Rightarrow> completed \<Rightarrow> pyerror + ('f \<times> 'f)" where
  "parse_sample flt v out =
     (if v \<in> set cuda_family then read_sample flt (stdout out) 2 (- 4) (- 3)
      else if v \<in> set scc_family then read_sample flt (stderr out) 3 (- 5) (- 4)
      else read_sample flt (stderr out) (- 2) (- 5) (- 4))"

subsection \<open>The world around \<open>core\<close>\<close>

text \<open>
  The arguments of the one \<open>to_csv\<close> call, in the order of the call (lines 97 to 110).
\<close>

record 'f csv_args =
  csv_file :: string
  csv_host_name :: "string option"
  csv_precision :: string
  csv_variant :: string
  csv_num_cols :: int
  csv_num_threads :: int
  csv_nproma :: int
  csv_num_runs :: int
  csv_runtime_mean :: 'f
  csv_runtime_stddev :: 'f
  csv_mflops_mean :: 'f
  csv_mflops_stddev :: 'f

text \<open>What \<open>core\<close> does to its surroundings, in the order it does it.\<close>

datatype 'f event =
    PathExists string
  | Spawn "string list"
  | PrintPerformance int "'f list" "'f list"
  | ToCsv "'f csv_args"

text \<open>
  The surroundings: which paths \<open>os.path.exists\<close> finds, what the child processes still to
  be started will return (the next one at index 0), and the events so far.
\<close>

record 'f world =
  present :: "string \<Rightarrow> bool"
  children :: "nat \<Rightarrow> completed"
  trace :: "'f event list"

text \<open>
  What \<open>core\<close> takes from outside this file: the directory of \<open>__file__\<close>, the builtin
  \<open>float\<close>, and the value \<open>print_performance\<close> of \<open>ifs_physics_common\<close> returns (or the
  exception it raises).
\<close>

record 'f env =
  here :: string
  float :: "string \<Rightarrow> 'f option"
  print_performance :: "int \<Rightarrow> 'f list \<Rightarrow> 'f list \<Rightarrow> pyerror + ('f \<times> 'f \<times> 'f \<times> 'f)"

definition subprocess_run :: "string list \<Rightarrow> 'f world \<Rightarrow> completed \<times> 'f world" where
  "subprocess_run argv w =
     (children w 0,
      w\<lparr>children := (\<lambda>k. children w (Suc k)), trace := trace w @ [Spawn argv]\<rparr>)"

subsection \<open>\<open>core\<close>\<close>

definition executable :: "'f env \<Rightarrow> config \<Rightarrow> string" where
  "executable E cfg =
     path_join (path_join (here E) (build_dir cfg)) (''bin/dwarf-cloudsc-'' @ variant cfg)"

definition missing_message :: "string \<Rightarrow> string" where
  "missing_message exe =
     ''The executable '' @ [char_of (96 :: nat)] @ exe @ [char_of (96 :: nat)] @ '' does not exist.''"

text \<open>The argument list of both \<open>subprocess.run\<close> calls.\<close>

definition command :: "'f env \<Rightarrow> config \<Rightarrow> string list" where
  "command E cfg =
     [executable E cfg,
      str_int (num_threads cfg),
      str_int (num_cols cfg),
      str_int (min (num_cols cfg) (nproma cfg))]"

text \<open>
  The \<open>for _ in range(config.num_runs)\<close> loop with \<open>n\<close> rounds to go; \<open>rl\<close> and \<open>fl\<close> are
  \<open>runtime_l\<close> and \<open>mflops_l\<close>. An exception ends the loop and the lists are lost.
\<close>

fun measured_runs ::
  "'f env \<Rightarrow> config \<Rightarrow> nat \<Rightarrow> 'f list \<Rightarrow> 'f list \<Rightarrow> 'f world
     \<Rightarrow> (pyerror + ('f list \<times> 'f list)) \<times> 'f world" where
  "measured_runs E cfg 0 rl fl w = (Inr (rl, fl), w)"
| "measured_runs E cfg (Suc n) rl fl w =
     (case subprocess_run (command E cfg) w of
        (out, w1) \<Rightarrow>
          (case parse_sample (float E) (variant cfg) out of
             Inl e \<Rightarrow> (Inl e, w1)
           | Inr (r, m) \<Rightarrow> measured_runs E cfg n (rl @ [r]) (fl @ [m]) w1))"

definition to_csv_call ::
  "config \<Rightarrow> io_config \<Rightarrow> string \<Rightarrow> ('f \<times> 'f \<times> 'f \<times> 'f) \<Rightarrow> 'f csv_args" where
  "to_csv_call cfg io f st =
     (case st of (rm, rs, mm, ms) \<Rightarrow>
        \<lparr>csv_file = f, csv_host_name = host_name io, csv_precision = precision cfg,
         csv_variant = variant cfg, csv_num_cols = num_cols cfg,
         csv_num_threads = num_threads cfg, csv_nproma = nproma cfg,
         csv_num_runs = num_runs cfg, csv_runtime_mean = rm, csv_runtime_stddev = rs,
         csv_mflops_mean = mm, csv_mflops_stddev = ms\<rparr>)"

text \<open>
  \<open>core\<close>, lines 30 to 110. The body has no \<open>return\<close> statement, so a call that completes
  evaluates to Python's \<open>None\<close>: the result is \<open>Inr None\<close>, and \<open>Inr (Some st)\<close> would be a
  call handing the four statistics \<open>st\<close> back. \<open>range(num_runs)\<close> is empty for a
  \<open>num_runs\<close> below 1. The work of \<open>to_csv\<close> itself is outside the model, which records the
  call.
\<close>

definition core ::
  "'f env \<Rightarrow> config \<Rightarrow> io_config \<Rightarrow> 'f world
     \<Rightarrow> (pyerror + ('f \<times> 'f \<times> 'f \<times> 'f) option) \<times> 'f world" where
  "core E cfg io w =
     (let exe = executable E cfg;
          w0 = w\<lparr>trace := trace w @ [PathExists exe]\<rparr>
      in if \<not> present w exe then (Inl (RuntimeError (missing_message exe)), w0)
         else
           (case subprocess_run (command E cfg) w0 of
              (out, w1) \<Rightarrow>
                if returncode out \<noteq> 0 then
                  (case decode (stderr out) of
                     Inl e \<Rightarrow> (Inl e, w1)
                   | Inr s \<Rightarrow> (Inl (RuntimeError s), w1))
                else
                  (case measured_runs E cfg (nat (num_runs cfg)) [] [] w1 of
                     (Inl e, w2) \<Rightarrow> (Inl e, w2)
                   | (Inr (rl, fl), w2) \<Rightarrow>
                       (let w3 = w2\<lparr>trace := trace w2 @ [PrintPerformance (num_cols cfg) rl fl]\<rparr>
                        in case print_performance E (num_cols cfg) rl fl of
                             Inl e \<Rightarrow> (Inl e, w3)
                           | Inr st \<Rightarrow>
                               (case output_csv_file io of
                                  None \<Rightarrow> (Inr None, w3)
                                | Some f \<Rightarrow>
                                    (Inr None,
                                     w3\<lparr>trace := trace w3 @ [ToCsv (to_csv_call cfg io f st)]\<rparr>))))))"

subsection \<open>A reader for plain decimal literals\<close>

text \<open>
  The part of the builtin \<open>float\<close> the examples below need: an optional sign, digits, and
  an optional point followed by digits, read as the exact rational the literal denotes.
  The builtin accepts more (exponents, \<open>inf\<close>, \<open>nan\<close>, underscores, blanks around the
  literal); every general statement below is for an arbitrary \<open>float\<close>.
\<close>

definition digit_of :: "char \<Rightarrow> nat option" where
  "digit_of c = (let n = (of_char c :: nat) in if 48 \<le> n \<and> n \<le> 57 then Some (n - 48) else None)"

fun digits_val :: "nat \<Rightarrow> string \<Rightarrow> nat option" where
  "digits_val acc [] = Some acc"
| "digits_val acc (c # cs) =
     (case digit_of c of None \<Rightarrow> None | Some d \<Rightarrow> digits_val (10 * acc + d) cs)"

definition unsigned_decimal :: "string \<Rightarrow> rat option" where
  "unsigned_decimal s =
     (let ip = takeWhile (\<lambda>c. c \<noteq> CHR ''.'') s;
          rest = dropWhile (\<lambda>c. c \<noteq> CHR ''.'') s;
          fp = (if rest = [] then [] else tl rest)
      in if ip = [] \<and> fp = [] then None
         else (case (digits_val 0 ip, digits_val 0 fp) of
                 (Some a, Some b) \<Rightarrow> Some (of_nat a + of_nat b / 10 ^ length fp)
               | _ \<Rightarrow> None))"

definition decimal_float :: "string \<Rightarrow> rat option" where
  "decimal_float s =
     (case s of
        [] \<Rightarrow> None
      | c # r \<Rightarrow>
          if c = CHR ''-'' then map_option uminus (unsigned_decimal r)
          else if c = CHR ''+'' then unsigned_decimal r
          else unsigned_decimal s)"

subsection \<open>Vocabulary for the statements\<close>

text \<open>
  The events one call of \<open>core\<close> adds to the trace, and the world right after a warm-up
  run that was started.
\<close>

definition issued :: "'f env \<Rightarrow> config \<Rightarrow> io_config \<Rightarrow> 'f world \<Rightarrow> 'f event list" where
  "issued E cfg io w = drop (length (trace w)) (trace (snd (core E cfg io w)))"

definition after_warmup :: "'f env \<Rightarrow> config \<Rightarrow> 'f world \<Rightarrow> 'f world" where
  "after_warmup E cfg w =
     w\<lparr>children := (\<lambda>k. children w (Suc k)),
       trace := trace w @ [PathExists (executable E cfg), Spawn (command E cfg)]\<rparr>"

definition is_spawn :: "'f event \<Rightarrow> bool" where
  "is_spawn ev = (case ev of Spawn a \<Rightarrow> True | _ \<Rightarrow> False)"

definition is_to_csv :: "'f event \<Rightarrow> bool" where
  "is_to_csv ev = (case ev of ToCsv a \<Rightarrow> True | _ \<Rightarrow> False)"

text \<open>
  What each branch of the loop body reads: the stream it decodes, the number of lines
  its line index needs, the line it picks, and the number of tokens its first offset
  needs. \<open>sample_of\<close> is the pair of conversions on a token list whose first offset is
  \<open>n\<close> from the end and whose second is \<open>n - 1\<close> from the end.
\<close>

definition chosen_stream :: "string \<Rightarrow> completed \<Rightarrow> string option" where
  "chosen_stream v out = (if v \<in> set cuda_family then stdout out else stderr out)"

definition lines_needed :: "string \<Rightarrow> nat" where
  "lines_needed v = (if v \<in> set cuda_family then 3 else if v \<in> set scc_family then 4 else 2)"

definition chosen_line :: "string \<Rightarrow> string list \<Rightarrow> string" where
  "chosen_line v ls =
     (if v \<in> set cuda_family then ls ! 2
      else if v \<in> set scc_family then ls ! 3
      else ls ! (length ls - 2))"

definition tokens_needed :: "string \<Rightarrow> nat" where
  "tokens_needed v = (if v \<in> set cuda_family then 4 else 5)"

definition sample_of ::
  "(string \<Rightarrow> 'f option) \<Rightarrow> string list \<Rightarrow> nat \<Rightarrow> pyerror + ('f \<times> 'f)" where
  "sample_of flt z n =
     (if length z < n then Inl IndexError
      else (case flt (z ! (length z - n)) of
              None \<Rightarrow> Inl ValueError
            | Some r \<Rightarrow>
                (case flt (z ! (length z - n + 1)) of
                   None \<Rightarrow> Inl ValueError
                 | Some m \<Rightarrow> Inr (r, m))))"

text \<open>
  Splitting on whitespace as the specification words it (what \<open>x.split()\<close> without an
  argument would do), to be compared with \<open>tokens\<close>, which is what the code does.
\<close>

definition is_whitespace :: "char \<Rightarrow> bool" where
  "is_whitespace c = (c \<in> set [CHR '' '', CHR 0x09, CHR 0x0A, CHR 0x0B, CHR 0x0C, CHR 0x0D])"

fun split_where :: "(char \<Rightarrow> bool) \<Rightarrow> string \<Rightarrow> string list" where
  "split_where P [] = [] # []"
| "split_where P (x # xs) =
     (if P x then [] # split_where P xs
      else (case split_where P xs of
              [] \<Rightarrow> [x] # []
            | p # ps \<Rightarrow> (x # p) # ps))"

definition whitespace_tokens :: "string \<Rightarrow> string list" where
  "whitespace_tokens x = filter (\<lambda>c. c \<noteq> []) (split_where is_whitespace x)"

text \<open>
  Modelled from the spec: the builder transforms \<open>with_nproma\<close> and \<open>with_num_cols\<close> of the
  configuration class, which is defined in \<open>ifs_physics_common\<close>; each returns a new
  value with one field replaced.
\<close>

definition with_nproma :: "int \<Rightarrow> config \<Rightarrow> config" where
  "with_nproma n cfg = cfg\<lparr>nproma := n\<rparr>"

definition with_num_cols :: "int \<Rightarrow> config \<Rightarrow> config" where
  "with_num_cols c cfg = cfg\<lparr>num_cols := c\<rparr>"

subsection \<open>Concrete runs\<close>

text \<open>
  A stand-in for \<open>print_performance\<close> (the two means, deviations reported as zero), the
  defaults of the command line (\<open>nproma = 32\<close>, \<open>num_cols = 1\<close>, one thread), a world in
  which only the CUDA binary exists, and a few captured outputs. \<open>cuda_banner\<close> is the
  fixture of the specification.
\<close>

definition stub_print_performance ::
  "int \<Rightarrow> rat list \<Rightarrow> rat list \<Rightarrow> pyerror + (rat \<times> rat \<times> rat \<times> rat)" where
  "stub_print_performance n rl fl =
     (if rl = [] then Inl ZeroDivisionError
      else Inr (sum_list rl / of_nat (length rl), 0, sum_list fl / of_nat (length fl), 0))"

definition demo_env :: "rat env" where
  "demo_env = \<lparr>here = ''/d'', float = decimal_float, print_performance = stub_print_performance\<rparr>"

definition demo_config :: "string \<Rightarrow> int \<Rightarrow> config" where
  "demo_config v n =
     \<lparr>build_dir = ''fortran'', precision = ''double'', variant = v, nproma = 32,
      num_cols = 1, num_runs = n, num_threads = 1\<rparr>"

definition demo_world :: "(nat \<Rightarrow> completed) \<Rightarrow> rat world" where
  "demo_world cs = \<lparr>present = (\<lambda>p. p = ''/d/fortran/bin/dwarf-cloudsc-cuda''), children = cs, trace = []\<rparr>"

definition no_csv :: io_config where
  "no_csv = \<lparr>output_csv_file = None, host_name = None\<rparr>"

definition to_performance_csv :: io_config where
  "to_performance_csv = \<lparr>output_csv_file = Some ''performance.csv'', host_name = Some ''lumi''\<rparr>"

definition cuda_banner :: string where
  "cuda_banner = [CHR 0x0A, CHR 0x0A] @ '' x 5.0 100.0 y z'' @ [CHR 0x0A]"

definition cuda_ok :: completed where
  "cuda_ok = \<lparr>returncode = 0, stdout = Some cuda_banner, stderr = Some []\<rparr>"

definition cuda_failed :: completed where
  "cuda_failed = \<lparr>returncode = 1, stdout = Some cuda_banner, stderr = Some ''Segmentation fault''\<rparr>"

definition scc_ok :: completed where
  "scc_ok =
     \<lparr>returncode = 0, stdout = Some [],
      stderr = Some (''a'' @ [CHR 0x0A] @ ''b'' @ [CHR 0x0A] @ ''c'' @ [CHR 0x0A]
                     @ ''t 7.5 250 u v w'' @ [CHR 0x0A])\<rparr>"

definition fortran_ok :: completed where
  "fortran_ok =
     \<lparr>returncode = 0, stdout = Some [],
      stderr = Some (''banner'' @ [CHR 0x0A] @ ''t 7.5 250 u v w'' @ [CHR 0x0A])\<rparr>"

definition tabbed_line :: string where
  "tabbed_line = ''x'' @ [CHR 0x09] @ ''5.0 100.0 y z''"

definition tabbed_cuda :: completed where
  "tabbed_cuda =
     \<lparr>returncode = 0, stdout = Some ([CHR 0x0A, CHR 0x0A] @ tabbed_line @ [CHR 0x0A]),
      stderr = Some []\<rparr>"

definition tabbed_scc :: completed where
  "tabbed_scc =
     \<lparr>returncode = 0, stdout = Some [],
      stderr = Some ([CHR 0x0A, CHR 0x0A, CHR 0x0A] @ tabbed_line @ '' w'' @ [CHR 0x0A])\<rparr>"

definition two_lines :: completed where
  "two_lines = \<lparr>returncode = 0, stdout = Some (''a'' @ [CHR 0x0A] @ ''b''), stderr = Some []\<rparr>"

definition short_line :: completed where
  "short_line =
     \<lparr>returncode = 0, stdout = Some [],
      stderr = Some (''banner'' @ [CHR 0x0A] @ ''7.5 250 u v'' @ [CHR 0x0A])\<rparr>"

definition not_a_number :: completed where
  "not_a_number =
     \<lparr>returncode = 0, stdout = Some [],
      stderr = Some (''banner'' @ [CHR 0x0A] @ ''t seven 250 u v w'' @ [CHR 0x0A])\<rparr>"

section \<open>Properties\<close>

subsection \<open>Indexing and the three layouts\<close>

lemma py_index_nonneg:
  "py_index xs (int k) = (if k < length xs then Inr (xs ! k) else Inl IndexError)"
  by (simp add: py_index_def)

lemma py_index_neg:
  "0 < k \<Longrightarrow>
   py_index xs (- int k) = (if k \<le> length xs then Inr (xs ! (length xs - k)) else Inl IndexError)"
  by (auto simp add: py_index_def nat_diff_distrib')

lemma py_index_numerals:
  "py_index xs 2 = (if 2 < length xs then Inr (xs ! 2) else Inl IndexError)"
  "py_index xs 3 = (if 3 < length xs then Inr (xs ! 3) else Inl IndexError)"
  "py_index xs (- 2) = (if 2 \<le> length xs then Inr (xs ! (length xs - 2)) else Inl IndexError)"
  "py_index xs (- 3) = (if 3 \<le> length xs then Inr (xs ! (length xs - 3)) else Inl IndexError)"
  "py_index xs (- 4) = (if 4 \<le> length xs then Inr (xs ! (length xs - 4)) else Inl IndexError)"
  "py_index xs (- 5) = (if 5 \<le> length xs then Inr (xs ! (length xs - 5)) else Inl IndexError)"
  using py_index_nonneg [of xs 2] py_index_nonneg [of xs 3]
        py_index_neg [of 2 xs] py_index_neg [of 3 xs] py_index_neg [of 4 xs] py_index_neg [of 5 xs]
  by simp_all

lemma read_tokens_4:
  "(case py_index z (- 4) of Inl e \<Rightarrow> Inl e
    | Inr a \<Rightarrow> (case py_float flt a of Inl e \<Rightarrow> Inl e
       | Inr r \<Rightarrow> (case py_index z (- 3) of Inl e \<Rightarrow> Inl e
          | Inr b \<Rightarrow> (case py_float flt b of Inl e \<Rightarrow> Inl e | Inr m \<Rightarrow> Inr (r, m)))))
   = sample_of flt z 4"
proof -
  have "4 \<le> length z \<Longrightarrow> length z - 3 = length z - 4 + 1" by simp
  then show ?thesis
    by (auto simp add: py_index_numerals py_float_def sample_of_def split: option.splits)
qed

lemma read_tokens_5:
  "(case py_index z (- 5) of Inl e \<Rightarrow> Inl e
    | Inr a \<Rightarrow> (case py_float flt a of Inl e \<Rightarrow> Inl e
       | Inr r \<Rightarrow> (case py_index z (- 4) of Inl e \<Rightarrow> Inl e
          | Inr b \<Rightarrow> (case py_float flt b of Inl e \<Rightarrow> Inl e | Inr m \<Rightarrow> Inr (r, m)))))
   = sample_of flt z 5"
proof -
  have "5 \<le> length z \<Longrightarrow> length z - 4 = length z - 5 + 1" by simp
  then show ?thesis
    by (auto simp add: py_index_numerals py_float_def sample_of_def split: option.splits)
qed

lemma read_sample_4:
  "read_sample flt (Some s) line (- 4) (- 3) =
     (case py_index (split_char CHR 0x0A s) line of
        Inl e \<Rightarrow> Inl e
      | Inr x \<Rightarrow> sample_of flt (tokens x) 4)"
  unfolding read_sample_def decode_def by (simp only: option.case sum.case read_tokens_4)

lemma read_sample_5:
  "read_sample flt (Some s) line (- 5) (- 4) =
     (case py_index (split_char CHR 0x0A s) line of
        Inl e \<Rightarrow> Inl e
      | Inr x \<Rightarrow> sample_of flt (tokens x) 5)"
  unfolding read_sample_def decode_def by (simp only: option.case sum.case read_tokens_5)

lemma read_sample_undecodable: "read_sample flt None line i j = Inl UnicodeDecodeError"
  by (simp add: read_sample_def decode_def)

lemma parse_sample_cases:
  "parse_sample flt v out =
     (case chosen_stream v out of
        None \<Rightarrow> Inl UnicodeDecodeError
      | Some s \<Rightarrow>
          if length (split_char CHR 0x0A s) < lines_needed v then Inl IndexError
          else sample_of flt (tokens (chosen_line v (split_char CHR 0x0A s))) (tokens_needed v))"
proof (cases "chosen_stream v out")
  case None
  then show ?thesis
    by (simp add: parse_sample_def chosen_stream_def read_sample_undecodable split: if_splits)
next
  case (Some s)
  then show ?thesis
    by (simp add: parse_sample_def chosen_stream_def lines_needed_def chosen_line_def
          tokens_needed_def read_sample_4 read_sample_5 py_index_numerals
        split: if_splits)
qed

lemma split_char_absent: "c \<notin> set x \<Longrightarrow> split_char c x = [x]"
  by (induction x) auto

lemma tokens_without_space: "CHR '' '' \<notin> set x \<Longrightarrow> x \<noteq> [] \<Longrightarrow> tokens x = [x]"
  by (simp add: tokens_def split_char_absent)

subsection \<open>The trace of one call\<close>

lemma measured_runs_trace:
  "\<exists>k\<le>n. trace (snd (measured_runs E cfg n rl fl w))
            = trace w @ replicate k (Spawn (command E cfg))"
proof (induction n arbitrary: rl fl w)
  case 0
  then show ?case by simp
next
  case (Suc n)
  let ?w1 = "snd (subprocess_run (command E cfg) w)"
  let ?out = "fst (subprocess_run (command E cfg) w)"
  have tr1: "trace ?w1 = trace w @ [Spawn (command E cfg)]"
    by (simp add: subprocess_run_def)
  show ?case
  proof (cases "parse_sample (float E) (variant cfg) ?out")
    case (Inl e)
    then have "trace (snd (measured_runs E cfg (Suc n) rl fl w))
                 = trace w @ replicate 1 (Spawn (command E cfg))"
      using tr1 by (simp add: case_prod_unfold)
    then show ?thesis by (metis One_nat_def Suc_le_mono le0)
  next
    case (Inr p)
    obtain r m where p: "p = (r, m)" by (cases p)
    from Suc.IH [of "rl @ [r]" "fl @ [m]" ?w1]
    obtain k where k: "k \<le> n"
      "trace (snd (measured_runs E cfg n (rl @ [r]) (fl @ [m]) ?w1))
         = trace ?w1 @ replicate k (Spawn (command E cfg))" by blast
    have "trace (snd (measured_runs E cfg (Suc n) rl fl w))
            = trace w @ replicate (Suc k) (Spawn (command E cfg))"
      using Inr p k(2) tr1 by (simp add: case_prod_unfold)
    then show ?thesis using k(1) by (metis Suc_le_mono)
  qed
qed

lemma measured_runs_ok:
  "measured_runs E cfg n rl fl w = (Inr (rl', fl'), w') \<Longrightarrow>
     trace w' = trace w @ replicate n (Spawn (command E cfg))
     \<and> length rl' = length rl + n \<and> length fl' = length fl + n"
proof (induction n arbitrary: rl fl w)
  case 0
  then show ?case by simp
next
  case (Suc n)
  let ?w1 = "snd (subprocess_run (command E cfg) w)"
  let ?out = "fst (subprocess_run (command E cfg) w)"
  have tr1: "trace ?w1 = trace w @ [Spawn (command E cfg)]"
    by (simp add: subprocess_run_def)
  show ?case
  proof (cases "parse_sample (float E) (variant cfg) ?out")
    case (Inl e)
    with Suc.prems show ?thesis by (simp add: case_prod_unfold)
  next
    case (Inr p)
    obtain r m where p: "p = (r, m)" by (cases p)
    have "measured_runs E cfg n (rl @ [r]) (fl @ [m]) ?w1 = (Inr (rl', fl'), w')"
      using Suc.prems Inr p by (simp add: case_prod_unfold)
    from Suc.IH [OF this] show ?thesis using tr1 by (simp add: replicate_app_Cons_same)
  qed
qed

lemma after_warmup_trace:
  "trace (after_warmup E cfg w)
     = trace w @ [PathExists (executable E cfg), Spawn (command E cfg)]"
  by (simp add: after_warmup_def)

lemma core_missing:
  "\<not> present w (executable E cfg) \<Longrightarrow>
     core E cfg io w =
       (Inl (RuntimeError (missing_message (executable E cfg))),
        w\<lparr>trace := trace w @ [PathExists (executable E cfg)]\<rparr>)"
  by (simp add: core_def Let_def)

lemma core_warmup_failed:
  "present w (executable E cfg) \<Longrightarrow> returncode (children w 0) \<noteq> 0 \<Longrightarrow>
     core E cfg io w =
       ((case stderr (children w 0) of
           None \<Rightarrow> Inl UnicodeDecodeError
         | Some s \<Rightarrow> Inl (RuntimeError s)),
        after_warmup E cfg w)"
  by (simp add: core_def Let_def subprocess_run_def after_warmup_def decode_def split: option.splits)

lemma core_warmup_passed:
  "present w (executable E cfg) \<Longrightarrow> returncode (children w 0) = 0 \<Longrightarrow>
     core E cfg io w =
       (case measured_runs E cfg (nat (num_runs cfg)) [] [] (after_warmup E cfg w) of
          (Inl e, w2) \<Rightarrow> (Inl e, w2)
        | (Inr (rl, fl), w2) \<Rightarrow>
            (let w3 = w2\<lparr>trace := trace w2 @ [PrintPerformance (num_cols cfg) rl fl]\<rparr>
             in case print_performance E (num_cols cfg) rl fl of
                  Inl e \<Rightarrow> (Inl e, w3)
                | Inr st \<Rightarrow>
                    (case output_csv_file io of
                       None \<Rightarrow> (Inr None, w3)
                     | Some f \<Rightarrow>
                         (Inr None,
                          w3\<lparr>trace := trace w3 @ [ToCsv (to_csv_call cfg io f st)]\<rparr>))))"
  by (simp add: core_def Let_def subprocess_run_def after_warmup_def)

lemma core_success:
  assumes ok: "fst (core E cfg io w) = Inr r"
  shows "present w (executable E cfg) \<and> returncode (children w 0) = 0 \<and> r = None
       \<and> (\<exists>rl fl st w2.
             measured_runs E cfg (nat (num_runs cfg)) [] [] (after_warmup E cfg w)
               = (Inr (rl, fl), w2)
           \<and> print_performance E (num_cols cfg) rl fl = Inr st
           \<and> issued E cfg io w =
               PathExists (executable E cfg) # Spawn (command E cfg)
               # replicate (nat (num_runs cfg)) (Spawn (command E cfg))
               @ PrintPerformance (num_cols cfg) rl fl
               # (case output_csv_file io of
                    None \<Rightarrow> []
                  | Some f \<Rightarrow> [ToCsv (to_csv_call cfg io f st)]))"
proof -
  have p: "present w (executable E cfg)"
    using ok by (cases "present w (executable E cfg)") (simp_all add: core_missing)
  have z: "returncode (children w 0) = 0"
    using ok p
    by (cases "returncode (children w 0) = 0")
       (simp_all add: core_warmup_failed split: option.splits)
  obtain res w2 where m:
    "measured_runs E cfg (nat (num_runs cfg)) [] [] (after_warmup E cfg w) = (res, w2)"
    by (cases "measured_runs E cfg (nat (num_runs cfg)) [] [] (after_warmup E cfg w)")
  from ok p z m obtain q where q: "res = Inr q"
    by (cases res) (simp_all add: core_warmup_passed)
  obtain rl fl where rm: "q = (rl, fl)" by (cases q)
  from ok p z m q rm obtain st where st: "print_performance E (num_cols cfg) rl fl = Inr st"
    by (cases "print_performance E (num_cols cfg) rl fl")
       (simp_all add: core_warmup_passed Let_def)
  have tr: "trace w2 = trace w @ [PathExists (executable E cfg), Spawn (command E cfg)]
                        @ replicate (nat (num_runs cfg)) (Spawn (command E cfg))"
    using measured_runs_ok [OF m [unfolded q rm]] by (simp add: after_warmup_trace)
  have r: "r = None"
    using ok p z m q rm st by (simp add: core_warmup_passed Let_def split: option.splits)
  have i: "issued E cfg io w =
               PathExists (executable E cfg) # Spawn (command E cfg)
               # replicate (nat (num_runs cfg)) (Spawn (command E cfg))
               @ PrintPerformance (num_cols cfg) rl fl
               # (case output_csv_file io of
                    None \<Rightarrow> []
                  | Some f \<Rightarrow> [ToCsv (to_csv_call cfg io f st)])"
    using p z m q rm st tr
    by (simp add: issued_def core_warmup_passed Let_def split: option.splits)
  from p z r m q rm st i show ?thesis by blast
qed

lemma core_events:
  "\<exists>k rest. k \<le> nat (num_runs cfg) + 1
     \<and> (\<forall>ev \<in> set rest. \<not> is_spawn ev)
     \<and> (output_csv_file io = None \<longrightarrow> (\<forall>ev \<in> set rest. \<not> is_to_csv ev))
     \<and> issued E cfg io w
         = PathExists (executable E cfg) # replicate k (Spawn (command E cfg)) @ rest"
proof (cases "fst (core E cfg io w)")
  case (Inr r)
  from core_success [OF Inr] obtain rl fl st where
    i: "issued E cfg io w =
               PathExists (executable E cfg) # Spawn (command E cfg)
               # replicate (nat (num_runs cfg)) (Spawn (command E cfg))
               @ PrintPerformance (num_cols cfg) rl fl
               # (case output_csv_file io of
                    None \<Rightarrow> []
                  | Some f \<Rightarrow> [ToCsv (to_csv_call cfg io f st)])" by blast
  let ?rest = "PrintPerformance (num_cols cfg) rl fl
               # (case output_csv_file io of
                    None \<Rightarrow> []
                  | Some f \<Rightarrow> [ToCsv (to_csv_call cfg io f st)])"
  have a: "\<forall>ev \<in> set ?rest. \<not> is_spawn ev"
    by (auto simp add: is_spawn_def split: option.splits)
  have b: "output_csv_file io = None \<longrightarrow> (\<forall>ev \<in> set ?rest. \<not> is_to_csv ev)"
    by (simp add: is_to_csv_def)
  have c: "issued E cfg io w
         = PathExists (executable E cfg)
           # replicate (nat (num_runs cfg) + 1) (Spawn (command E cfg)) @ ?rest"
    using i by simp
  from a b c show ?thesis by (metis order_refl)
next
  case (Inl e)
  show ?thesis
  proof (cases "present w (executable E cfg)")
    case False
    then have "issued E cfg io w
         = PathExists (executable E cfg) # replicate 0 (Spawn (command E cfg)) @ []"
      by (simp add: issued_def core_missing)
    then show ?thesis by (metis empty_iff empty_set le0)
  next
    case True
    show ?thesis
    proof (cases "returncode (children w 0) = 0")
      case False
      with True have "issued E cfg io w
         = PathExists (executable E cfg) # replicate 1 (Spawn (command E cfg)) @ []"
        by (simp add: issued_def core_warmup_failed after_warmup_trace)
      moreover have "(1::nat) \<le> nat (num_runs cfg) + 1" by simp
      ultimately show ?thesis by (metis empty_iff empty_set)
    next
      case z: True
      obtain res w2 where m:
        "measured_runs E cfg (nat (num_runs cfg)) [] [] (after_warmup E cfg w) = (res, w2)"
        by (cases "measured_runs E cfg (nat (num_runs cfg)) [] [] (after_warmup E cfg w)")
      from measured_runs_trace [of "nat (num_runs cfg)" E cfg "[]" "[]" "after_warmup E cfg w"]
      obtain k where k: "k \<le> nat (num_runs cfg)"
        "trace w2 = trace (after_warmup E cfg w) @ replicate k (Spawn (command E cfg))"
        using m by auto
      show ?thesis
      proof (cases res)
        case e2: (Inl e2)
        have "issued E cfg io w
           = PathExists (executable E cfg) # replicate (Suc k) (Spawn (command E cfg)) @ []"
          using True z m e2 k(2)
          by (simp add: issued_def core_warmup_passed after_warmup_trace)
        moreover have "Suc k \<le> nat (num_runs cfg) + 1" using k(1) by simp
        ultimately show ?thesis by (metis empty_iff empty_set)
      next
        case q: (Inr q)
        obtain rl fl where rm: "q = (rl, fl)" by (cases q)
        from Inl True z m q rm obtain e3 where
          e3: "print_performance E (num_cols cfg) rl fl = Inl e3"
          by (cases "print_performance E (num_cols cfg) rl fl")
             (simp_all add: core_warmup_passed Let_def split: option.splits)
        have tr: "trace w2 = trace w @ [PathExists (executable E cfg), Spawn (command E cfg)]
                        @ replicate (nat (num_runs cfg)) (Spawn (command E cfg))"
          using measured_runs_ok [OF m [unfolded q rm]] by (simp add: after_warmup_trace)
        have "issued E cfg io w
           = PathExists (executable E cfg)
             # replicate (nat (num_runs cfg) + 1) (Spawn (command E cfg))
             @ [PrintPerformance (num_cols cfg) rl fl]"
          using True z m q rm e3 tr
          by (simp add: issued_def core_warmup_passed Let_def)
        moreover have "\<forall>ev \<in> set [PrintPerformance (num_cols cfg) rl fl]. \<not> is_spawn ev"
          by (simp add: is_spawn_def)
        moreover have "\<forall>ev \<in> set [PrintPerformance (num_cols cfg) rl fl]. \<not> is_to_csv ev"
          by (simp add: is_to_csv_def)
        ultimately show ?thesis by (metis order_refl)
      qed
    qed
  qed
qed

lemma filter_spawn_replicate:
  "filter is_spawn (replicate k (Spawn c)) = replicate k (Spawn c)"
  by (simp add: is_spawn_def)

lemma spawn_count:
  assumes "\<forall>ev \<in> set rest. \<not> is_spawn ev"
  shows "length (filter is_spawn (PathExists p # replicate k (Spawn c) @ rest)) = k"
proof -
  have "filter is_spawn rest = []" using assms by (simp add: filter_empty_conv)
  then show ?thesis by (simp add: filter_spawn_replicate) (simp add: is_spawn_def)
qed

lemma spawn_member:
  assumes "\<forall>ev \<in> set rest. \<not> is_spawn ev"
    and "Spawn a \<in> set (PathExists p # replicate k (Spawn c) @ rest)"
  shows "a = c"
  using assms by (auto simp add: is_spawn_def)

lemma issued_spawns: "Spawn a \<in> set (issued E cfg io w) \<Longrightarrow> a = command E cfg"
  using core_events [of cfg io E w] spawn_member by metis

lemma builders_commute: "with_nproma n (with_num_cols c cfg) = with_num_cols c (with_nproma n cfg)"
  by (simp add: with_nproma_def with_num_cols_def)

lemma warmup_output_unused:
  assumes "returncode c = 0" and "returncode c' = 0"
  shows "fst (core E cfg io (w\<lparr>children := (children w)(0 := c)\<rparr>))
           = fst (core E cfg io (w\<lparr>children := (children w)(0 := c')\<rparr>))
       \<and> issued E cfg io (w\<lparr>children := (children w)(0 := c)\<rparr>)
           = issued E cfg io (w\<lparr>children := (children w)(0 := c')\<rparr>)"
proof (cases "present w (executable E cfg)")
  case False
  then show ?thesis by (simp add: core_missing issued_def)
next
  case True
  have "after_warmup E cfg (w\<lparr>children := (children w)(0 := c)\<rparr>)
          = after_warmup E cfg (w\<lparr>children := (children w)(0 := c')\<rparr>)"
    by (simp add: after_warmup_def)
  then show ?thesis using True assms by (simp add: core_warmup_passed issued_def)
qed

subsection \<open>Failing child processes\<close>

text \<open>
  C1. The claim: a non-zero exit code of the warm-up run or of any measured run makes
  \<open>core\<close> fail with the captured error stream, and nothing of that run is collected,
  aggregated or persisted. The code tests \<open>returncode\<close> after the warm-up run only. Here
  the warm-up run exits with 0 and the one measured run exits with 1, with a well-formed
  banner on its standard output: \<open>core\<close> completes, the sample \<open>(5, 100)\<close> reaches
  \<open>print_performance\<close> and a row is handed to \<open>to_csv\<close>.
\<close>

theorem core_ignores_measured_exit_code:
  "returncode cuda_failed = 1
   \<and> fst (core demo_env (demo_config ''cuda'' 1) to_performance_csv
            (demo_world (\<lambda>k. if k = 0 then cuda_ok else cuda_failed))) = Inr None
   \<and> issued demo_env (demo_config ''cuda'' 1) to_performance_csv
            (demo_world (\<lambda>k. if k = 0 then cuda_ok else cuda_failed))
       = [PathExists ''/d/fortran/bin/dwarf-cloudsc-cuda'',
          Spawn [''/d/fortran/bin/dwarf-cloudsc-cuda'', ''1'', ''1'', ''1''],
          Spawn [''/d/fortran/bin/dwarf-cloudsc-cuda'', ''1'', ''1'', ''1''],
          PrintPerformance 1 [5] [100],
          ToCsv \<lparr>csv_file = ''performance.csv'', csv_host_name = Some ''lumi'',
                 csv_precision = ''double'', csv_variant = ''cuda'', csv_num_cols = 1,
                 csv_num_threads = 1, csv_nproma = 32, csv_num_runs = 1,
                 csv_runtime_mean = 5, csv_runtime_stddev = 0,
                 csv_mflops_mean = 100, csv_mflops_stddev = 0\<rparr>]"
  by code_simp

subsection \<open>The command line of the child processes\<close>

text \<open>
  C2. Every child process \<open>core\<close> starts, warm-up or measured, gets the executable and
  exactly three arguments: \<open>str(num_threads)\<close>, \<open>str(num_cols)\<close> and
  \<open>str(min(num_cols, nproma))\<close>. The block size passed is at most \<open>num_cols\<close>, and the
  order in which \<open>with_nproma\<close> and \<open>with_num_cols\<close> were applied makes no difference.
\<close>

theorem core_spawn_arguments:
  "(\<forall>a. Spawn a \<in> set (issued E cfg io w) \<longrightarrow>
        a = [executable E cfg, str_int (num_threads cfg), str_int (num_cols cfg),
             str_int (min (num_cols cfg) (nproma cfg))])
   \<and> min (num_cols cfg) (nproma cfg) \<le> num_cols cfg
   \<and> issued E (with_nproma n (with_num_cols c cfg)) io w
       = issued E (with_num_cols c (with_nproma n cfg)) io w
   \<and> (\<forall>a. Spawn a \<in> set (issued E (with_num_cols c (with_nproma n cfg)) io w) \<longrightarrow>
        a ! 3 = str_int (min c n))"
proof -
  have a: "\<forall>a. Spawn a \<in> set (issued E cfg io w) \<longrightarrow>
        a = [executable E cfg, str_int (num_threads cfg), str_int (num_cols cfg),
             str_int (min (num_cols cfg) (nproma cfg))]"
    using issued_spawns [of _ E cfg io w] by (simp add: command_def)
  have b: "\<forall>a. Spawn a \<in> set (issued E (with_num_cols c (with_nproma n cfg)) io w) \<longrightarrow>
        a ! 3 = str_int (min c n)"
  proof (intro allI impI)
    fix a
    assume "Spawn a \<in> set (issued E (with_num_cols c (with_nproma n cfg)) io w)"
    then have "a = command E (with_num_cols c (with_nproma n cfg))" by (rule issued_spawns)
    then show "a ! 3 = str_int (min c n)"
      by (simp add: command_def with_nproma_def with_num_cols_def)
  qed
  from a b show ?thesis by (simp add: builders_commute)
qed

theorem core_spawn_arguments_witness:
  "Spawn [''/d/fortran/bin/dwarf-cloudsc-cuda'', ''1'', ''1'', ''1'']
     \<in> set (issued demo_env (demo_config ''cuda'' 2) no_csv (demo_world (\<lambda>k. cuda_ok)))
   \<and> [''/d/fortran/bin/dwarf-cloudsc-cuda'', ''1'', ''1'', ''1'']
     = [executable demo_env (demo_config ''cuda'' 2),
        str_int (num_threads (demo_config ''cuda'' 2)),
        str_int (num_cols (demo_config ''cuda'' 2)),
        str_int (min (num_cols (demo_config ''cuda'' 2)) (nproma (demo_config ''cuda'' 2)))]
   \<and> nproma (demo_config ''cuda'' 2) = 32 \<and> num_cols (demo_config ''cuda'' 2) = 1"
proof -
  have h: "Spawn [''/d/fortran/bin/dwarf-cloudsc-cuda'', ''1'', ''1'', ''1'']
     \<in> set (issued demo_env (demo_config ''cuda'' 2) no_csv (demo_world (\<lambda>k. cuda_ok)))"
    by code_simp
  have c: "nproma (demo_config ''cuda'' 2) = 32 \<and> num_cols (demo_config ''cuda'' 2) = 1"
    by (simp add: demo_config_def)
  from core_spawn_arguments [of demo_env "demo_config ''cuda'' 2" no_csv "demo_world (\<lambda>k. cuda_ok)"] h
  have "[''/d/fortran/bin/dwarf-cloudsc-cuda'', ''1'', ''1'', ''1'']
     = [executable demo_env (demo_config ''cuda'' 2),
        str_int (num_threads (demo_config ''cuda'' 2)),
        str_int (num_cols (demo_config ''cuda'' 2)),
        str_int (min (num_cols (demo_config ''cuda'' 2)) (nproma (demo_config ''cuda'' 2)))]"
    by blast
  with h c show ?thesis by blast
qed

subsection \<open>The three layouts\<close>

text \<open>
  C3, as amended. For a variant of the CUDA family the sample comes from line 2 of the
  standard output, split at newlines; that line is split at the space character only
  (any other character, a tab included, stays inside its token) and empty pieces are
  dropped; the runtime is \<open>float\<close> of the 4th token from the end and the throughput
  \<open>float\<close> of the 3rd from the end. The fixture of the specification gives \<open>(5, 100)\<close>.
\<close>

theorem parse_cuda_family:
  assumes "v \<in> set cuda_family" and "stdout out = Some s"
    and "2 < length (split_char CHR 0x0A s)"
    and "z = tokens (split_char CHR 0x0A s ! 2)"
    and "4 \<le> length z"
    and "flt (z ! (length z - 4)) = Some r"
    and "flt (z ! (length z - 3)) = Some m"
  shows "parse_sample flt v out = Inr (r, m)
       \<and> parse_sample decimal_float v
             \<lparr>returncode = rc, stdout = Some cuda_banner, stderr = err\<rparr> = Inr (5, 100)"
proof -
  have 3: "length z - 4 + 1 = length z - 3" using assms(5) by simp
  have a: "parse_sample flt v out = Inr (r, m)"
    using assms 3
    by (simp add: parse_sample_cases chosen_stream_def lines_needed_def chosen_line_def
          tokens_needed_def sample_of_def)
  have "read_sample decimal_float (Some cuda_banner) 2 (- 4) (- 3) = Inr (5, 100)"
    by code_simp
  then have b: "parse_sample decimal_float v
             \<lparr>returncode = rc, stdout = Some cuda_banner, stderr = err\<rparr> = Inr (5, 100)"
    using assms(1) by (simp add: parse_sample_def)
  from a b show ?thesis by simp
qed

theorem parse_cuda_family_witness:
  "''cuda-hoist'' \<in> set cuda_family
   \<and> stdout cuda_ok = Some cuda_banner
   \<and> 2 < length (split_char CHR 0x0A cuda_banner)
   \<and> tokens (split_char CHR 0x0A cuda_banner ! 2) = [''x'', ''5.0'', ''100.0'', ''y'', ''z'']
   \<and> decimal_float ''5.0'' = Some 5
   \<and> decimal_float ''100.0'' = Some 100
   \<and> parse_sample decimal_float ''cuda-hoist'' cuda_ok = Inr (5, 100)"
proof -
  have h1: "''cuda-hoist'' \<in> set cuda_family" by code_simp
  have h2: "stdout cuda_ok = Some cuda_banner" by code_simp
  have h3: "2 < length (split_char CHR 0x0A cuda_banner)" by code_simp
  have h4: "[''x'', ''5.0'', ''100.0'', ''y'', ''z''] = tokens (split_char CHR 0x0A cuda_banner ! 2)"
    by code_simp
  have h5: "4 \<le> length [''x'', ''5.0'', ''100.0'', ''y'', ''z'']" by simp
  have h6: "decimal_float ([''x'', ''5.0'', ''100.0'', ''y'', ''z''] !
              (length [''x'', ''5.0'', ''100.0'', ''y'', ''z''] - 4)) = Some 5" by code_simp
  have h7: "decimal_float ([''x'', ''5.0'', ''100.0'', ''y'', ''z''] !
              (length [''x'', ''5.0'', ''100.0'', ''y'', ''z''] - 3)) = Some 100" by code_simp
  have d5: "decimal_float ''5.0'' = Some 5" by code_simp
  have d100: "decimal_float ''100.0'' = Some 100" by code_simp
  from parse_cuda_family [OF h1 h2 h3 h4 h5 h6 h7]
  have "parse_sample decimal_float ''cuda-hoist'' cuda_ok = Inr (5, 100)" by simp
  with h1 h2 h3 h4 d5 d100 show ?thesis by simp
qed

text \<open>
  C3 as stated, with splitting on whitespace, fails: on the line \<open>x<TAB>5.0 100.0 y z\<close>
  the 4th and 3rd whitespace-separated tokens from the end are \<open>5.0\<close> and \<open>100.0\<close>, but
  the code takes \<open>x<TAB>5.0\<close> as the 4th token from the end and \<open>float\<close> rejects it.
\<close>

theorem cuda_whitespace_counterexample:
  "py_index (split_char CHR 0x0A (the (stdout tabbed_cuda))) 2 = Inr tabbed_line
   \<and> py_index (whitespace_tokens tabbed_line) (- 4) = Inr ''5.0''
   \<and> py_index (whitespace_tokens tabbed_line) (- 3) = Inr ''100.0''
   \<and> decimal_float ''5.0'' = Some 5
   \<and> decimal_float ''100.0'' = Some 100
   \<and> parse_sample decimal_float ''cuda'' tabbed_cuda = Inl ValueError"
  by code_simp

text \<open>
  C4, as amended. For a variant outside the CUDA family the sample comes from the error
  stream: line 3 for a variant of the SCC family, the second-to-last line for any other
  variant. The line is split at the space character only, empty pieces are dropped, the
  runtime is \<open>float\<close> of the 5th token from the end and the throughput \<open>float\<close> of the 4th
  from the end.
\<close>

theorem parse_stderr_families:
  assumes "v \<notin> set cuda_family" and "stderr out = Some s"
    and "ls = split_char CHR 0x0A s"
    and "if v \<in> set scc_family then 3 < length ls \<and> x = ls ! 3
         else 2 \<le> length ls \<and> x = ls ! (length ls - 2)"
    and "z = tokens x"
    and "5 \<le> length z"
    and "flt (z ! (length z - 5)) = Some r"
    and "flt (z ! (length z - 4)) = Some m"
  shows "parse_sample flt v out = Inr (r, m)"
proof -
  have 4: "length z - 5 + 1 = length z - 4" using assms(6) by simp
  show ?thesis
    using assms 4
    by (simp add: parse_sample_cases chosen_stream_def lines_needed_def chosen_line_def
          tokens_needed_def sample_of_def split: if_splits)
qed

theorem parse_stderr_families_witness:
  "''gpu-scc'' \<notin> set cuda_family \<and> ''gpu-scc'' \<in> set scc_family
   \<and> ''fortran'' \<notin> set cuda_family \<and> ''fortran'' \<notin> set scc_family
   \<and> parse_sample decimal_float ''gpu-scc'' scc_ok = Inr (15 / 2, 250)
   \<and> parse_sample decimal_float ''fortran'' fortran_ok = Inr (15 / 2, 250)"
proof -
  let ?z = "[''t'', ''7.5'', ''250'', ''u'', ''v'', ''w'']"
  have c1: "''gpu-scc'' \<notin> set cuda_family" by code_simp
  have s1: "''gpu-scc'' \<in> set scc_family" by code_simp
  have c2: "''fortran'' \<notin> set cuda_family" by code_simp
  have s2: "''fortran'' \<notin> set scc_family" by code_simp
  have e1: "stderr scc_ok = Some (''a'' @ [CHR 0x0A] @ ''b'' @ [CHR 0x0A] @ ''c'' @ [CHR 0x0A]
                     @ ''t 7.5 250 u v w'' @ [CHR 0x0A])" by (simp add: scc_ok_def)
  have e2: "stderr fortran_ok = Some (''banner'' @ [CHR 0x0A] @ ''t 7.5 250 u v w'' @ [CHR 0x0A])"
    by (simp add: fortran_ok_def)
  have l1: "if ''gpu-scc'' \<in> set scc_family
            then 3 < length (split_char CHR 0x0A (''a'' @ [CHR 0x0A] @ ''b'' @ [CHR 0x0A] @ ''c'' @ [CHR 0x0A]
                     @ ''t 7.5 250 u v w'' @ [CHR 0x0A]))
               \<and> ''t 7.5 250 u v w'' = split_char CHR 0x0A (''a'' @ [CHR 0x0A] @ ''b'' @ [CHR 0x0A] @ ''c'' @ [CHR 0x0A]
                     @ ''t 7.5 250 u v w'' @ [CHR 0x0A]) ! 3
            else 2 \<le> length (split_char CHR 0x0A (''a'' @ [CHR 0x0A] @ ''b'' @ [CHR 0x0A] @ ''c'' @ [CHR 0x0A]
                     @ ''t 7.5 250 u v w'' @ [CHR 0x0A]))
               \<and> ''t 7.5 250 u v w'' = split_char CHR 0x0A (''a'' @ [CHR 0x0A] @ ''b'' @ [CHR 0x0A] @ ''c'' @ [CHR 0x0A]
                     @ ''t 7.5 250 u v w'' @ [CHR 0x0A]) !
                     (length (split_char CHR 0x0A (''a'' @ [CHR 0x0A] @ ''b'' @ [CHR 0x0A] @ ''c'' @ [CHR 0x0A]
                     @ ''t 7.5 250 u v w'' @ [CHR 0x0A])) - 2)"
    by code_simp
  have l2: "if ''fortran'' \<in> set scc_family
            then 3 < length (split_char CHR 0x0A (''banner'' @ [CHR 0x0A] @ ''t 7.5 250 u v w'' @ [CHR 0x0A]))
               \<and> ''t 7.5 250 u v w'' = split_char CHR 0x0A (''banner'' @ [CHR 0x0A] @ ''t 7.5 250 u v w'' @ [CHR 0x0A]) ! 3
            else 2 \<le> length (split_char CHR 0x0A (''banner'' @ [CHR 0x0A] @ ''t 7.5 250 u v w'' @ [CHR 0x0A]))
               \<and> ''t 7.5 250 u v w'' = split_char CHR 0x0A (''banner'' @ [CHR 0x0A] @ ''t 7.5 250 u v w'' @ [CHR 0x0A]) !
                     (length (split_char CHR 0x0A (''banner'' @ [CHR 0x0A] @ ''t 7.5 250 u v w'' @ [CHR 0x0A])) - 2)"
    by code_simp
  have t: "?z = tokens ''t 7.5 250 u v w''" by code_simp
  have n: "5 \<le> length ?z" by simp
  have r: "decimal_float (?z ! (length ?z - 5)) = Some (15 / 2)" by code_simp
  have m: "decimal_float (?z ! (length ?z - 4)) = Some 250" by code_simp
  have a: "parse_sample decimal_float ''gpu-scc'' scc_ok = Inr (15 / 2, 250)"
    by (rule parse_stderr_families [OF c1 e1 refl l1 t n r m])
  have b: "parse_sample decimal_float ''fortran'' fortran_ok = Inr (15 / 2, 250)"
    by (rule parse_stderr_families [OF c2 e2 refl l2 t n r m])
  from c1 s1 c2 s2 a b show ?thesis by simp
qed

text \<open>
  C4 as stated, with whitespace-separated tokens, fails in the same way: on line 3
  \<open>x<TAB>5.0 100.0 y z w\<close> the 5th and 4th whitespace-separated tokens from the end are
  \<open>5.0\<close> and \<open>100.0\<close>, and the code raises \<open>ValueError\<close> on \<open>x<TAB>5.0\<close>.
\<close>

theorem scc_whitespace_counterexample:
  "py_index (split_char CHR 0x0A (the (stderr tabbed_scc))) 3 = Inr (tabbed_line @ '' w'')
   \<and> py_index (whitespace_tokens (tabbed_line @ '' w'')) (- 5) = Inr ''5.0''
   \<and> py_index (whitespace_tokens (tabbed_line @ '' w'')) (- 4) = Inr ''100.0''
   \<and> decimal_float ''5.0'' = Some 5
   \<and> decimal_float ''100.0'' = Some 100
   \<and> parse_sample decimal_float ''gpu-scc'' tabbed_scc = Inl ValueError"
  by code_simp

text \<open>
  C5. When the stream a variant's branch reads has too few lines for the line index, or
  the line has too few tokens for the first offset, the parse ends with \<open>IndexError\<close>;
  when one of the two tokens is rejected by \<open>float\<close> it ends with \<open>ValueError\<close>. These
  two exceptions are what the specification calls a \<open>ParseError\<close> (structural mismatch
  and value mismatch). A sample is returned only when lines and tokens suffice and both
  conversions succeed, and it is then exactly the pair of converted tokens: no zero, no
  default, no other value.
\<close>

theorem parse_sample_malformed:
  assumes "chosen_stream v out = Some s"
    and "ls = split_char CHR 0x0A s"
    and "z = tokens (chosen_line v ls)"
    and "n = tokens_needed v"
  shows "(length ls < lines_needed v \<longrightarrow> parse_sample flt v out = Inl IndexError)
       \<and> (lines_needed v \<le> length ls \<and> length z < n
            \<longrightarrow> parse_sample flt v out = Inl IndexError)
       \<and> (lines_needed v \<le> length ls \<and> n \<le> length z
            \<and> (flt (z ! (length z - n)) = None \<or> flt (z ! (length z - n + 1)) = None)
            \<longrightarrow> parse_sample flt v out = Inl ValueError)
       \<and> (\<forall>p. parse_sample flt v out = Inr p
            \<longrightarrow> lines_needed v \<le> length ls \<and> n \<le> length z
                \<and> flt (z ! (length z - n)) = Some (fst p)
                \<and> flt (z ! (length z - n + 1)) = Some (snd p))"
  using assms
  by (auto simp add: parse_sample_cases sample_of_def split: option.splits if_splits)

theorem parse_sample_malformed_witness:
  "chosen_stream ''cuda'' two_lines = Some (''a'' @ [CHR 0x0A] @ ''b'')
   \<and> length (split_char CHR 0x0A (''a'' @ [CHR 0x0A] @ ''b'')) < lines_needed ''cuda''
   \<and> parse_sample decimal_float ''cuda'' two_lines = Inl IndexError
   \<and> parse_sample decimal_float ''fortran'' short_line = Inl IndexError
   \<and> parse_sample decimal_float ''fortran'' not_a_number = Inl ValueError"
proof -
  have h: "chosen_stream ''cuda'' two_lines = Some (''a'' @ [CHR 0x0A] @ ''b'')" by code_simp
  have k: "length (split_char CHR 0x0A (''a'' @ [CHR 0x0A] @ ''b'')) < lines_needed ''cuda''"
    by code_simp
  from parse_sample_malformed [OF h refl refl refl, of decimal_float] k
  have a: "parse_sample decimal_float ''cuda'' two_lines = Inl IndexError" by blast
  have h2: "chosen_stream ''fortran'' short_line
              = Some (''banner'' @ [CHR 0x0A] @ ''7.5 250 u v'' @ [CHR 0x0A])" by code_simp
  have k2: "lines_needed ''fortran''
              \<le> length (split_char CHR 0x0A (''banner'' @ [CHR 0x0A] @ ''7.5 250 u v'' @ [CHR 0x0A]))
            \<and> length (tokens (chosen_line ''fortran''
                 (split_char CHR 0x0A (''banner'' @ [CHR 0x0A] @ ''7.5 250 u v'' @ [CHR 0x0A]))))
              < tokens_needed ''fortran''" by code_simp
  from parse_sample_malformed [OF h2 refl refl refl, of decimal_float] k2
  have b: "parse_sample decimal_float ''fortran'' short_line = Inl IndexError" by blast
  let ?s3 = "''banner'' @ [CHR 0x0A] @ ''t seven 250 u v w'' @ [CHR 0x0A]"
  let ?z3 = "tokens (chosen_line ''fortran'' (split_char CHR 0x0A ?s3))"
  have h3: "chosen_stream ''fortran'' not_a_number = Some ?s3" by code_simp
  have k3: "lines_needed ''fortran'' \<le> length (split_char CHR 0x0A ?s3)
            \<and> tokens_needed ''fortran'' \<le> length ?z3
            \<and> (decimal_float (?z3 ! (length ?z3 - tokens_needed ''fortran'')) = None
               \<or> decimal_float (?z3 ! (length ?z3 - tokens_needed ''fortran'' + 1)) = None)"
    by code_simp
  from parse_sample_malformed [OF h3 refl refl refl, of decimal_float] k3
  have c: "parse_sample decimal_float ''fortran'' not_a_number = Inl ValueError" by blast
  from h k a b c show ?thesis by simp
qed

subsection \<open>The order of the steps\<close>

text \<open>
  C6. When the path of the executable does not exist, \<open>core\<close> raises at once: the
  \<open>RuntimeError\<close> with the message naming the path (the specification's
  \<open>ConfigurationError\<close>), after the existence test and nothing else. No child process is
  started and none of the pending results is consumed.
\<close>

theorem core_missing_executable:
  assumes "\<not> present w (executable E cfg)"
  shows "fst (core E cfg io w) = Inl (RuntimeError (missing_message (executable E cfg)))
       \<and> issued E cfg io w = [PathExists (executable E cfg)]
       \<and> filter is_spawn (issued E cfg io w) = []
       \<and> children (snd (core E cfg io w)) = children w"
  using assms by (simp add: core_missing issued_def is_spawn_def)

theorem core_missing_executable_witness:
  "\<not> present (demo_world (\<lambda>k. cuda_ok)) (executable demo_env (demo_config ''fortran'' 2))
   \<and> fst (core demo_env (demo_config ''fortran'' 2) no_csv (demo_world (\<lambda>k. cuda_ok)))
       = Inl (RuntimeError (missing_message ''/d/fortran/bin/dwarf-cloudsc-fortran''))
   \<and> issued demo_env (demo_config ''fortran'' 2) no_csv (demo_world (\<lambda>k. cuda_ok))
       = [PathExists ''/d/fortran/bin/dwarf-cloudsc-fortran'']"
proof -
  have h: "\<not> present (demo_world (\<lambda>k. cuda_ok)) (executable demo_env (demo_config ''fortran'' 2))"
    by code_simp
  have e: "executable demo_env (demo_config ''fortran'' 2) = ''/d/fortran/bin/dwarf-cloudsc-fortran''"
    by code_simp
  from core_missing_executable [OF h, of no_csv] h e show ?thesis by simp
qed

text \<open>
  C7. With \<open>num_runs\<close> not negative: a call that completes has tested the path, started
  the warm-up run, started exactly \<open>num_runs\<close> measured runs with one sample each, called
  \<open>print_performance\<close> once and then, if a file is configured, \<open>to_csv\<close> once, in this
  order, so it started \<open>num_runs + 1\<close> child processes. A warm-up run with a non-zero
  exit code ends the call with an exception after that single child process. No call
  starts more than \<open>num_runs + 1\<close> child processes. What the warm-up run wrote to its
  streams is never read: two warm-up results with exit code 0 give the same outcome and
  the same events.
\<close>

theorem core_linear_order:
  assumes "0 \<le> num_runs cfg"
  shows "(\<forall>r. fst (core E cfg io w) = Inr r \<longrightarrow>
            (\<exists>rl fl st. length rl = nat (num_runs cfg) \<and> length fl = nat (num_runs cfg)
               \<and> print_performance E (num_cols cfg) rl fl = Inr st
               \<and> issued E cfg io w =
                   PathExists (executable E cfg) # Spawn (command E cfg)
                   # replicate (nat (num_runs cfg)) (Spawn (command E cfg))
                   @ PrintPerformance (num_cols cfg) rl fl
                   # (case output_csv_file io of
                        None \<Rightarrow> []
                      | Some f \<Rightarrow> [ToCsv (to_csv_call cfg io f st)]))
            \<and> int (length (filter is_spawn (issued E cfg io w))) = num_runs cfg + 1)
       \<and> (present w (executable E cfg) \<and> returncode (children w 0) \<noteq> 0 \<longrightarrow>
            (\<exists>e. fst (core E cfg io w) = Inl e)
            \<and> issued E cfg io w = [PathExists (executable E cfg), Spawn (command E cfg)])
       \<and> length (filter is_spawn (issued E cfg io w)) \<le> nat (num_runs cfg) + 1
       \<and> (\<forall>c c'. returncode c = 0 \<and> returncode c' = 0 \<longrightarrow>
            fst (core E cfg io (w\<lparr>children := (children w)(0 := c)\<rparr>))
              = fst (core E cfg io (w\<lparr>children := (children w)(0 := c')\<rparr>))
            \<and> issued E cfg io (w\<lparr>children := (children w)(0 := c)\<rparr>)
              = issued E cfg io (w\<lparr>children := (children w)(0 := c')\<rparr>))"
proof -
  have a: "\<forall>r. fst (core E cfg io w) = Inr r \<longrightarrow>
            (\<exists>rl fl st. length rl = nat (num_runs cfg) \<and> length fl = nat (num_runs cfg)
               \<and> print_performance E (num_cols cfg) rl fl = Inr st
               \<and> issued E cfg io w =
                   PathExists (executable E cfg) # Spawn (command E cfg)
                   # replicate (nat (num_runs cfg)) (Spawn (command E cfg))
                   @ PrintPerformance (num_cols cfg) rl fl
                   # (case output_csv_file io of
                        None \<Rightarrow> []
                      | Some f \<Rightarrow> [ToCsv (to_csv_call cfg io f st)]))
            \<and> int (length (filter is_spawn (issued E cfg io w))) = num_runs cfg + 1"
  proof (intro allI impI)
    fix r
    assume ok: "fst (core E cfg io w) = Inr r"
    from core_success [OF ok] obtain rl fl st w2 where
      m: "measured_runs E cfg (nat (num_runs cfg)) [] [] (after_warmup E cfg w)
            = (Inr (rl, fl), w2)"
      and st: "print_performance E (num_cols cfg) rl fl = Inr st"
      and i: "issued E cfg io w =
                   PathExists (executable E cfg) # Spawn (command E cfg)
                   # replicate (nat (num_runs cfg)) (Spawn (command E cfg))
                   @ PrintPerformance (num_cols cfg) rl fl
                   # (case output_csv_file io of
                        None \<Rightarrow> []
                      | Some f \<Rightarrow> [ToCsv (to_csv_call cfg io f st)])"
      by blast
    have len: "length rl = nat (num_runs cfg) \<and> length fl = nat (num_runs cfg)"
      using measured_runs_ok [OF m] by simp
    have "length (filter is_spawn (issued E cfg io w)) = nat (num_runs cfg) + 1"
      unfolding i by (auto simp add: is_spawn_def split: option.splits)
    then have cnt: "int (length (filter is_spawn (issued E cfg io w))) = num_runs cfg + 1"
      using assms by simp
    from len st i cnt
    show "(\<exists>rl fl st. length rl = nat (num_runs cfg) \<and> length fl = nat (num_runs cfg)
               \<and> print_performance E (num_cols cfg) rl fl = Inr st
               \<and> issued E cfg io w =
                   PathExists (executable E cfg) # Spawn (command E cfg)
                   # replicate (nat (num_runs cfg)) (Spawn (command E cfg))
                   @ PrintPerformance (num_cols cfg) rl fl
                   # (case output_csv_file io of
                        None \<Rightarrow> []
                      | Some f \<Rightarrow> [ToCsv (to_csv_call cfg io f st)]))
            \<and> int (length (filter is_spawn (issued E cfg io w))) = num_runs cfg + 1"
      by blast
  qed
  have b: "present w (executable E cfg) \<and> returncode (children w 0) \<noteq> 0 \<longrightarrow>
            (\<exists>e. fst (core E cfg io w) = Inl e)
            \<and> issued E cfg io w = [PathExists (executable E cfg), Spawn (command E cfg)]"
    by (auto simp add: core_warmup_failed issued_def after_warmup_trace split: option.splits)
  have c: "length (filter is_spawn (issued E cfg io w)) \<le> nat (num_runs cfg) + 1"
    using core_events [of cfg io E w] spawn_count by metis
  from a b c warmup_output_unused show ?thesis by blast
qed

theorem core_linear_order_witness:
  "0 \<le> num_runs (demo_config ''cuda'' 2)
   \<and> fst (core demo_env (demo_config ''cuda'' 2) no_csv (demo_world (\<lambda>k. cuda_ok))) = Inr None
   \<and> int (length (filter is_spawn
        (issued demo_env (demo_config ''cuda'' 2) no_csv (demo_world (\<lambda>k. cuda_ok))))) = 3
   \<and> present (demo_world (\<lambda>k. cuda_failed)) (executable demo_env (demo_config ''cuda'' 2))
   \<and> returncode (children (demo_world (\<lambda>k. cuda_failed)) 0) \<noteq> 0
   \<and> issued demo_env (demo_config ''cuda'' 2) no_csv (demo_world (\<lambda>k. cuda_failed))
       = [PathExists (executable demo_env (demo_config ''cuda'' 2)),
          Spawn (command demo_env (demo_config ''cuda'' 2))]"
proof -
  have h: "0 \<le> num_runs (demo_config ''cuda'' 2)" by code_simp
  have n: "num_runs (demo_config ''cuda'' 2) + 1 = 3" by code_simp
  have ok: "fst (core demo_env (demo_config ''cuda'' 2) no_csv (demo_world (\<lambda>k. cuda_ok)))
              = Inr None" by code_simp
  have p: "present (demo_world (\<lambda>k. cuda_failed)) (executable demo_env (demo_config ''cuda'' 2))"
    by code_simp
  have f: "returncode (children (demo_world (\<lambda>k. cuda_failed)) 0) \<noteq> 0" by code_simp
  from core_linear_order [OF h, where E = demo_env and io = no_csv and w = "demo_world (\<lambda>k. cuda_ok)"] ok n
  have a: "int (length (filter is_spawn
        (issued demo_env (demo_config ''cuda'' 2) no_csv (demo_world (\<lambda>k. cuda_ok))))) = 3"
    by simp
  from core_linear_order [OF h, where E = demo_env and io = no_csv and w = "demo_world (\<lambda>k. cuda_failed)"] p f
  have b: "issued demo_env (demo_config ''cuda'' 2) no_csv (demo_world (\<lambda>k. cuda_failed))
       = [PathExists (executable demo_env (demo_config ''cuda'' 2)),
          Spawn (command demo_env (demo_config ''cuda'' 2))]"
    by blast
  from h ok a p f b show ?thesis by blast
qed

subsection \<open>Persistence\<close>

text \<open>
  C8, as amended. With no \<open>output_csv_file\<close>: \<open>core\<close> never hands statistics back (a
  call that completes returns \<open>None\<close>), \<open>to_csv\<close> is not called, and when the executable
  exists, the warm-up run exits with 0, every measured run parses and
  \<open>print_performance\<close> returns, the call completes and its last step is the
  \<open>print_performance\<close> call on the collected samples.
\<close>

theorem core_without_csv_file:
  assumes "output_csv_file io = None"
  shows "(\<forall>st. fst (core E cfg io w) \<noteq> Inr (Some st))
       \<and> (\<forall>ev \<in> set (issued E cfg io w). \<not> is_to_csv ev)
       \<and> (\<forall>rl fl st.
            present w (executable E cfg) \<and> returncode (children w 0) = 0
            \<and> fst (measured_runs E cfg (nat (num_runs cfg)) [] [] (after_warmup E cfg w))
                = Inr (rl, fl)
            \<and> print_performance E (num_cols cfg) rl fl = Inr st
            \<longrightarrow> fst (core E cfg io w) = Inr None
                \<and> last (issued E cfg io w) = PrintPerformance (num_cols cfg) rl fl)"
proof -
  have a: "\<forall>st. fst (core E cfg io w) \<noteq> Inr (Some st)"
    using core_success [of E cfg io w] by auto
  from core_events [of cfg io E w] assms obtain k rest where
    r: "\<forall>ev \<in> set rest. \<not> is_to_csv ev"
    and i: "issued E cfg io w
         = PathExists (executable E cfg) # replicate k (Spawn (command E cfg)) @ rest"
    by blast
  have b: "\<forall>ev \<in> set (issued E cfg io w). \<not> is_to_csv ev"
    unfolding i using r by (auto simp add: is_to_csv_def)
  have c: "\<forall>rl fl st.
            present w (executable E cfg) \<and> returncode (children w 0) = 0
            \<and> fst (measured_runs E cfg (nat (num_runs cfg)) [] [] (after_warmup E cfg w))
                = Inr (rl, fl)
            \<and> print_performance E (num_cols cfg) rl fl = Inr st
            \<longrightarrow> fst (core E cfg io w) = Inr None
                \<and> last (issued E cfg io w) = PrintPerformance (num_cols cfg) rl fl"
  proof (intro allI impI)
    fix rl fl st
    assume h: "present w (executable E cfg) \<and> returncode (children w 0) = 0
            \<and> fst (measured_runs E cfg (nat (num_runs cfg)) [] [] (after_warmup E cfg w))
                = Inr (rl, fl)
            \<and> print_performance E (num_cols cfg) rl fl = Inr st"
    obtain w2 where m:
      "measured_runs E cfg (nat (num_runs cfg)) [] [] (after_warmup E cfg w)
         = (Inr (rl, fl), w2)"
      using h by (cases "measured_runs E cfg (nat (num_runs cfg)) [] [] (after_warmup E cfg w)") simp
    have ok: "fst (core E cfg io w) = Inr None"
      using h m assms by (simp add: core_warmup_passed Let_def)
    from core_success [OF ok] m h assms
    have "issued E cfg io w =
               PathExists (executable E cfg) # Spawn (command E cfg)
               # replicate (nat (num_runs cfg)) (Spawn (command E cfg))
               @ [PrintPerformance (num_cols cfg) rl fl]"
      by auto
    then have "last (issued E cfg io w) = PrintPerformance (num_cols cfg) rl fl" by simp
    with ok show "fst (core E cfg io w) = Inr None
                \<and> last (issued E cfg io w) = PrintPerformance (num_cols cfg) rl fl" by simp
  qed
  from a b c show ?thesis by blast
qed

theorem core_without_csv_file_witness:
  "output_csv_file no_csv = None
   \<and> present (demo_world (\<lambda>k. cuda_ok)) (executable demo_env (demo_config ''cuda'' 2))
   \<and> returncode (children (demo_world (\<lambda>k. cuda_ok)) 0) = 0
   \<and> fst (measured_runs demo_env (demo_config ''cuda'' 2) (nat (num_runs (demo_config ''cuda'' 2)))
            [] [] (after_warmup demo_env (demo_config ''cuda'' 2) (demo_world (\<lambda>k. cuda_ok))))
       = Inr ([5, 5], [100, 100])
   \<and> print_performance demo_env (num_cols (demo_config ''cuda'' 2)) [5, 5] [100, 100]
       = Inr (5, 0, 100, 0)
   \<and> fst (core demo_env (demo_config ''cuda'' 2) no_csv (demo_world (\<lambda>k. cuda_ok))) = Inr None
   \<and> last (issued demo_env (demo_config ''cuda'' 2) no_csv (demo_world (\<lambda>k. cuda_ok)))
       = PrintPerformance (num_cols (demo_config ''cuda'' 2)) [5, 5] [100, 100]"
proof -
  have h: "output_csv_file no_csv = None" by code_simp
  have p: "present (demo_world (\<lambda>k. cuda_ok)) (executable demo_env (demo_config ''cuda'' 2))"
    by code_simp
  have z: "returncode (children (demo_world (\<lambda>k. cuda_ok)) 0) = 0" by code_simp
  have m: "fst (measured_runs demo_env (demo_config ''cuda'' 2) (nat (num_runs (demo_config ''cuda'' 2)))
            [] [] (after_warmup demo_env (demo_config ''cuda'' 2) (demo_world (\<lambda>k. cuda_ok))))
       = Inr ([5, 5], [100, 100])" by code_simp
  have s: "print_performance demo_env (num_cols (demo_config ''cuda'' 2)) [5, 5] [100, 100]
       = Inr (5, 0, 100, 0)" by code_simp
  from core_without_csv_file [OF h, where E = demo_env and cfg = "demo_config ''cuda'' 2" and w = "demo_world (\<lambda>k. cuda_ok)"]
    p z m s
  have "fst (core demo_env (demo_config ''cuda'' 2) no_csv (demo_world (\<lambda>k. cuda_ok))) = Inr None
   \<and> last (issued demo_env (demo_config ''cuda'' 2) no_csv (demo_world (\<lambda>k. cuda_ok)))
       = PrintPerformance (num_cols (demo_config ''cuda'' 2)) [5, 5] [100, 100]"
    by blast
  with h p z m s show ?thesis by blast
qed

text \<open>
  C8 as stated fails where it says that the four statistics are returned to the caller:
  in this run \<open>print_performance\<close> yields \<open>(5, 0, 100, 0)\<close> and \<open>core\<close> returns \<open>None\<close>.
\<close>

theorem core_returns_no_statistics_counterexample:
  "output_csv_file no_csv = None
   \<and> print_performance demo_env 1 [5, 5] [100, 100] = Inr (5, 0, 100, 0)
   \<and> issued demo_env (demo_config ''cuda'' 2) no_csv (demo_world (\<lambda>k. cuda_ok))
       = [PathExists ''/d/fortran/bin/dwarf-cloudsc-cuda'',
          Spawn [''/d/fortran/bin/dwarf-cloudsc-cuda'', ''1'', ''1'', ''1''],
          Spawn [''/d/fortran/bin/dwarf-cloudsc-cuda'', ''1'', ''1'', ''1''],
          Spawn [''/d/fortran/bin/dwarf-cloudsc-cuda'', ''1'', ''1'', ''1''],
          PrintPerformance 1 [5, 5] [100, 100]]
   \<and> fst (core demo_env (demo_config ''cuda'' 2) no_csv (demo_world (\<lambda>k. cuda_ok)))
       \<noteq> Inr (Some (5, 0, 100, 0))
   \<and> fst (core demo_env (demo_config ''cuda'' 2) no_csv (demo_world (\<lambda>k. cuda_ok))) = Inr None"
  by code_simp

text \<open>
  C9. When a file is configured and the call completes, the last step is the one
  \<open>to_csv\<close> call, and its block-size argument is \<open>config.nproma\<close> as configured, while
  every child process was given \<open>str(min(num_cols, nproma))\<close>. So for
  \<open>nproma > num_cols\<close> the row reports a block size larger than the one used.
\<close>

theorem core_persists_configured_nproma:
  assumes "output_csv_file io = Some f" and "fst (core E cfg io w) = Inr r"
  shows "\<exists>a. last (issued E cfg io w) = ToCsv a
           \<and> filter is_to_csv (issued E cfg io w) = [ToCsv a]
           \<and> csv_nproma a = nproma cfg
           \<and> (\<forall>argv. Spawn argv \<in> set (issued E cfg io w) \<longrightarrow>
                 argv ! 3 = str_int (min (num_cols cfg) (nproma cfg)))
           \<and> (num_cols cfg < nproma cfg \<longrightarrow> min (num_cols cfg) (nproma cfg) < csv_nproma a)"
proof -
  from core_success [OF assms(2)] assms(1) obtain rl fl st where
    i: "issued E cfg io w =
               PathExists (executable E cfg) # Spawn (command E cfg)
               # replicate (nat (num_runs cfg)) (Spawn (command E cfg))
               @ [PrintPerformance (num_cols cfg) rl fl, ToCsv (to_csv_call cfg io f st)]"
    by auto
  let ?a = "to_csv_call cfg io f st"
  have l: "last (issued E cfg io w) = ToCsv ?a" unfolding i by simp
  have u: "filter is_to_csv (issued E cfg io w) = [ToCsv ?a]"
    unfolding i by (simp add: is_to_csv_def)
  have n: "csv_nproma ?a = nproma cfg" by (simp add: to_csv_call_def split: prod.splits)
  have s: "\<forall>argv. Spawn argv \<in> set (issued E cfg io w) \<longrightarrow>
                 argv ! 3 = str_int (min (num_cols cfg) (nproma cfg))"
  proof (intro allI impI)
    fix argv
    assume "Spawn argv \<in> set (issued E cfg io w)"
    then have "argv = command E cfg" by (rule issued_spawns)
    then show "argv ! 3 = str_int (min (num_cols cfg) (nproma cfg))"
      by (simp add: command_def)
  qed
  have g: "num_cols cfg < nproma cfg \<longrightarrow> min (num_cols cfg) (nproma cfg) < csv_nproma ?a"
    using n by simp
  from l u n s g show ?thesis by blast
qed

theorem core_persists_configured_nproma_witness:
  "output_csv_file to_performance_csv = Some ''performance.csv''
   \<and> fst (core demo_env (demo_config ''cuda'' 2) to_performance_csv (demo_world (\<lambda>k. cuda_ok)))
       = Inr None
   \<and> num_cols (demo_config ''cuda'' 2) < nproma (demo_config ''cuda'' 2)
   \<and> Spawn [''/d/fortran/bin/dwarf-cloudsc-cuda'', ''1'', ''1'', ''1'']
       \<in> set (issued demo_env (demo_config ''cuda'' 2) to_performance_csv (demo_world (\<lambda>k. cuda_ok)))
   \<and> (\<exists>a. last (issued demo_env (demo_config ''cuda'' 2) to_performance_csv
                   (demo_world (\<lambda>k. cuda_ok))) = ToCsv a
          \<and> csv_nproma a = 32 \<and> 1 < csv_nproma a)"
proof -
  have h: "output_csv_file to_performance_csv = Some ''performance.csv''" by code_simp
  have ok: "fst (core demo_env (demo_config ''cuda'' 2) to_performance_csv (demo_world (\<lambda>k. cuda_ok)))
       = Inr None" by code_simp
  have c: "num_cols (demo_config ''cuda'' 2) < nproma (demo_config ''cuda'' 2)" by code_simp
  have v: "nproma (demo_config ''cuda'' 2) = 32" by code_simp
  have sp: "Spawn [''/d/fortran/bin/dwarf-cloudsc-cuda'', ''1'', ''1'', ''1'']
       \<in> set (issued demo_env (demo_config ''cuda'' 2) to_performance_csv (demo_world (\<lambda>k. cuda_ok)))"
    by code_simp
  from core_persists_configured_nproma [OF h ok] v
  have "\<exists>a. last (issued demo_env (demo_config ''cuda'' 2) to_performance_csv
                   (demo_world (\<lambda>k. cuda_ok))) = ToCsv a
          \<and> csv_nproma a = 32 \<and> 1 < csv_nproma a" by auto
  with h ok c sp show ?thesis by blast
qed

subsection \<open>The kernel\<close>


end
